theory Spec2Isabelle
  imports Complex_Main "HOL-Library.Multiset"
begin

section \<open>Data model of \<open>src/main.c\<close>\<close>

text \<open>
  The three structs of the program. A finite C \<open>double\<close> is a \<open>real\<close> (infinities and
  NaN are left out); where the rounding of binary64 arithmetic can change what the
  program does, it is written out below. \<open>open_flags\<close> and the counters are C \<open>int\<close>s;
  the program only
  converts \<open>open_flags\<close> to \<open>double\<close> and increments counters that never exceed the
  number of records (itself an \<open>int\<close>), so no \<open>int\<close> operation of the modelled code can
  wrap and they are modelled as \<open>int\<close>. C strings are \<open>string\<close>s, \<open>strcmp(a, b) == 0\<close>
  is equality.
\<close>

record Scholar =
  scholar_id :: string
  name :: string
  cohort :: string
  days_inactive :: real
  attendance_rate :: real
  engagement_score :: real
  gpa :: real
  last_contact_days :: real
  survey_score :: real
  open_flags :: int
  risk_score :: real

record CohortSummary =
  cohort_name :: string
  total :: int
  high :: int
  medium :: int
  low :: int
  avg_risk :: real

record Driver =
  label :: string
  value_d :: real

section \<open>RiskModel: \<open>clamp\<close> and \<open>compute_risk\<close>\<close>

definition clamp :: "real \<Rightarrow> real \<Rightarrow> real \<Rightarrow> real" where
  "clamp v lo hi = (if v < lo then lo else if v > hi then hi else v)"

definition compute_risk :: "Scholar \<Rightarrow> real" where
  "compute_risk s =
     (let gpa_gap = clamp (4.0 - gpa s) 0.0 4.0;
          attendance_gap = clamp (100.0 - attendance_rate s) 0.0 100.0;
          engagement_gap = clamp (100.0 - engagement_score s) 0.0 100.0;
          survey_gap = clamp (100.0 - survey_score s) 0.0 100.0;
          score = 0.0;
          score = score + days_inactive s * 0.6;
          score = score + last_contact_days s * 0.4;
          score = score + attendance_gap * 0.35;
          score = score + engagement_gap * 0.25;
          score = score + gpa_gap * 12.5;
          score = score + survey_gap * 0.15;
          score = score + real_of_int (open_flags s) * 6.0
      in clamp score 0.0 100.0)"

text \<open>
  Binary64 arithmetic. A decimal literal of the source is the double nearest to it, and
  \<open>+\<close>, \<open>-\<close> and \<open>*\<close> on doubles give the exact result rounded to a double. The rounding
  is the parameter \<open>rnd\<close> of the definitions below: \<open>rnd 0.1\<close> is the double the literal
  \<open>0.1\<close> stands for, \<open>rnd (a * b)\<close> the product the machine computes. No property of \<open>rnd\<close>
  is assumed anywhere, so what is proved holds for the rounding of the machine, whatever
  it is. \<open>compute_risk\<close> above is the same function without rounding.
\<close>

definition compute_risk_fp :: "(real \<Rightarrow> real) \<Rightarrow> Scholar \<Rightarrow> real" where
  "compute_risk_fp rnd s =
     (let gpa_gap = clamp (rnd (rnd 4.0 - gpa s)) (rnd 0.0) (rnd 4.0);
          attendance_gap = clamp (rnd (rnd 100.0 - attendance_rate s)) (rnd 0.0) (rnd 100.0);
          engagement_gap = clamp (rnd (rnd 100.0 - engagement_score s)) (rnd 0.0) (rnd 100.0);
          survey_gap = clamp (rnd (rnd 100.0 - survey_score s)) (rnd 0.0) (rnd 100.0);
          score = rnd 0.0;
          score = rnd (score + rnd (days_inactive s * rnd 0.6));
          score = rnd (score + rnd (last_contact_days s * rnd 0.4));
          score = rnd (score + rnd (attendance_gap * rnd 0.35));
          score = rnd (score + rnd (engagement_gap * rnd 0.25));
          score = rnd (score + rnd (gpa_gap * rnd 12.5));
          score = rnd (score + rnd (survey_gap * rnd 0.15));
          score = rnd (score + rnd (real_of_int (open_flags s) * rnd 6.0))
      in clamp score (rnd 0.0) (rnd 100.0))"

section \<open>Classifier: \<open>risk_tier\<close> and \<open>action_hint\<close>\<close>

definition risk_tier :: "real \<Rightarrow> string" where
  "risk_tier score =
     (if score \<ge> 75.0 then ''high''
      else if score \<ge> 50.0 then ''medium''
      else ''low'')"

definition action_hint :: "Scholar \<Rightarrow> string" where
  "action_hint s =
     (if days_inactive s \<ge> 30.0 then ''re-engage outreach''
      else if attendance_rate s < 70.0 then ''attendance support''
      else if gpa s < 2.5 then ''academic support''
      else if open_flags s > 0 then ''resolve open flags''
      else if engagement_score s < 60.0 then ''engagement nudge''
      else ''lightweight check-in'')"

text \<open>
  The decision list as the specification words it: an ordered list of (condition,
  action) rules, evaluated front to back, the first rule whose condition holds decides,
  and a default when none does.
\<close>

fun first_match :: "(('a \<Rightarrow> bool) \<times> 'b) list \<Rightarrow> 'b \<Rightarrow> 'a \<Rightarrow> 'b" where
  "first_match [] dflt x = dflt"
| "first_match ((c, a) # rules) dflt x = (if c x then a else first_match rules dflt x)"

definition action_rules :: "((Scholar \<Rightarrow> bool) \<times> string) list" where
  "action_rules =
     [(\<lambda>s. days_inactive s \<ge> 30, ''re-engage outreach''),
      (\<lambda>s. attendance_rate s < 70, ''attendance support''),
      (\<lambda>s. gpa s < 2.5, ''academic support''),
      (\<lambda>s. open_flags s > 0, ''resolve open flags''),
      (\<lambda>s. engagement_score s < 60, ''engagement nudge'')]"

section \<open>The sorting routine\<close>

text \<open>
  Modelled from the spec: the sorting routine. Both rankings call the C library's
  \<open>qsort\<close> with a comparison function; \<open>qsort\<close> is not among the repository's files, and
  ISO C leaves the order of elements that compare as equal unspecified. The
  specification asks for a stable sort (equal scores "retain their relative order from
  the input sequence", equal magnitudes "preserve the fixed declaration order"), so the
  routine is modelled as one: \<open>insert_sorted\<close> puts an element before the first element it
  does not have to follow, which keeps elements that compare as equal in input order.
\<close>

fun insert_sorted :: "('a \<Rightarrow> 'a \<Rightarrow> int) \<Rightarrow> 'a \<Rightarrow> 'a list \<Rightarrow> 'a list" where
  "insert_sorted cmp x [] = [x]"
| "insert_sorted cmp x (y # ys) =
     (if cmp x y \<le> 0 then x # y # ys else y # insert_sorted cmp x ys)"

text \<open>
  Modelled from the spec: \<open>qsort(base, n, size, cmp)\<close> as the stable sort of the array by
  \<open>cmp\<close>, returning the sorted array.
\<close>

definition qsort :: "('a \<Rightarrow> 'a \<Rightarrow> int) \<Rightarrow> 'a list \<Rightarrow> 'a list" where
  "qsort cmp xs = foldr (insert_sorted cmp) xs []"

section \<open>DriverAnalyzer: \<open>compare_driver_desc\<close> and \<open>format_drivers\<close>\<close>

definition compare_driver_desc :: "Driver \<Rightarrow> Driver \<Rightarrow> int" where
  "compare_driver_desc da db =
     (if value_d da < value_d db then 1
      else if value_d da > value_d db then - 1
      else 0)"

text \<open>
  The seven additive terms \<open>format_drivers\<close> computes (lines 90 to 101), each with the
  label lines 103 to 109 give it, in the order of those lines.
\<close>

definition driver_terms :: "(real \<Rightarrow> real) \<Rightarrow> Scholar \<Rightarrow> Driver list" where
  "driver_terms rnd s =
     (let gpa_gap = clamp (rnd (rnd 4.0 - gpa s)) (rnd 0.0) (rnd 4.0);
          attendance_gap = clamp (rnd (rnd 100.0 - attendance_rate s)) (rnd 0.0) (rnd 100.0);
          engagement_gap = clamp (rnd (rnd 100.0 - engagement_score s)) (rnd 0.0) (rnd 100.0);
          survey_gap = clamp (rnd (rnd 100.0 - survey_score s)) (rnd 0.0) (rnd 100.0);
          inactivity = rnd (days_inactive s * rnd 0.6);
          contact_gap = rnd (last_contact_days s * rnd 0.4);
          attendance = rnd (attendance_gap * rnd 0.35);
          engagement = rnd (engagement_gap * rnd 0.25);
          gpa_term = rnd (gpa_gap * rnd 12.5);
          survey = rnd (survey_gap * rnd 0.15);
          flags = rnd (real_of_int (open_flags s) * rnd 6.0)
      in [\<lparr>label = ''inactivity'', value_d = inactivity\<rparr>,
          \<lparr>label = ''contact gap'', value_d = contact_gap\<rparr>,
          \<lparr>label = ''attendance'', value_d = attendance\<rparr>,
          \<lparr>label = ''engagement'', value_d = engagement\<rparr>,
          \<lparr>label = ''gpa'', value_d = gpa_term\<rparr>,
          \<lparr>label = ''survey'', value_d = survey\<rparr>,
          \<lparr>label = ''open flags'', value_d = flags\<rparr>])"

text \<open>
  One statement \<open>if (x > 0.1) drivers[count++] = (Driver){label, x};\<close>, where \<open>0.1\<close> is the
  double of that literal, and the seven of them run in order on an empty array.
\<close>

definition push_driver :: "(real \<Rightarrow> real) \<Rightarrow> Driver list \<Rightarrow> Driver \<Rightarrow> Driver list" where
  "push_driver rnd drivers d = (if value_d d > rnd 0.1 then drivers @ [d] else drivers)"

definition collect_drivers :: "(real \<Rightarrow> real) \<Rightarrow> Scholar \<Rightarrow> Driver list" where
  "collect_drivers rnd s = foldl (push_driver rnd) [] (driver_terms rnd s)"

text \<open>The array after the \<open>qsort\<close> call of line 116.\<close>

definition sorted_drivers :: "(real \<Rightarrow> real) \<Rightarrow> Scholar \<Rightarrow> Driver list" where
  "sorted_drivers rnd s = qsort compare_driver_desc (collect_drivers rnd s)"

text \<open>
  \<open>snprintf(buf, size, ...)\<close> keeps at most \<open>size - 1\<close> characters of the formatted text;
  \<open>strncat(dest, src, n)\<close> appends at most \<open>n\<close> characters of \<open>src\<close>. How \<open>printf\<close> writes
  a \<open>double\<close> under \<open>%.1f\<close> is left as the parameter \<open>fmt\<close>.
\<close>

definition snprintf :: "nat \<Rightarrow> string \<Rightarrow> string" where
  "snprintf size_n text = take (size_n - 1) text"

definition strncat :: "string \<Rightarrow> string \<Rightarrow> nat \<Rightarrow> string" where
  "strncat dest src n = dest @ take n src"

text \<open>
  \<open>size - strlen(buffer) - 1\<close> is computed in \<open>size_t\<close>, here of 64 bits: it wraps around
  when the buffer already holds \<open>size\<close> characters or more.
\<close>

definition room :: "nat \<Rightarrow> string \<Rightarrow> nat" where
  "room size_n buffer = nat ((int size_n - int (length buffer) - 1) mod 2 ^ 64)"

text \<open>The loop of lines 120 to 127 over the drivers it formats, \<open>i\<close> counting from 0.\<close>

fun write_chunks :: "(real \<Rightarrow> string) \<Rightarrow> nat \<Rightarrow> nat \<Rightarrow> Driver list \<Rightarrow> string \<Rightarrow> string" where
  "write_chunks fmt size_n i [] buffer = buffer"
| "write_chunks fmt size_n i (d # ds) buffer =
     (let chunk = snprintf 64 (label d @ '' '' @ fmt (value_d d));
          buffer = (if i > 0 then strncat buffer ''; '' (room size_n buffer) else buffer);
          buffer = strncat buffer chunk (room size_n buffer)
      in write_chunks fmt size_n (i + 1) ds buffer)"

text \<open>\<open>format_drivers\<close>, returning the text it leaves in the buffer.\<close>

definition format_drivers :: "(real \<Rightarrow> real) \<Rightarrow> (real \<Rightarrow> string) \<Rightarrow> Scholar \<Rightarrow> nat \<Rightarrow> string" where
  "format_drivers rnd fmt s size_n =
     (let count = length (collect_drivers rnd s)
      in if count = 0 then snprintf size_n ''stable''
         else (let drivers = sorted_drivers rnd s;
                   mx = (if count < 3 then count else 3)
               in write_chunks fmt size_n 0 (take mx drivers) []))"

text \<open>The callers' buffer: \<open>char driver_text[256]\<close>.\<close>

definition driver_text_size :: nat where
  "driver_text_size = 256"

section \<open>Ranker: \<open>compare_risk_desc\<close>\<close>

definition compare_risk_desc :: "Scholar \<Rightarrow> Scholar \<Rightarrow> int" where
  "compare_risk_desc sa sb =
     (if risk_score sa < risk_score sb then 1
      else if risk_score sa > risk_score sb then - 1
      else 0)"

section \<open>CohortAggregator: \<open>find_or_create_cohort\<close> and the aggregation loop\<close>

text \<open>
  The scan of \<open>find_or_create_cohort\<close> returns the first index whose name matches. The
  pointer the function returns is modelled as the (possibly grown) array and an index
  into it.
\<close>

fun find_cohort :: "CohortSummary list \<Rightarrow> string \<Rightarrow> nat option" where
  "find_cohort [] nm = None"
| "find_cohort (c # cs) nm =
     (if cohort_name c = nm then Some 0 else map_option Suc (find_cohort cs nm))"

definition find_or_create_cohort :: "CohortSummary list \<Rightarrow> string \<Rightarrow> CohortSummary list \<times> nat" where
  "find_or_create_cohort cohorts nm =
     (case find_cohort cohorts nm of
        Some i \<Rightarrow> (cohorts, i)
      | None \<Rightarrow>
          (cohorts @ [\<lparr>cohort_name = nm, total = 0, high = 0, medium = 0, low = 0,
                        avg_risk = 0.0\<rparr>],
           length cohorts))"

text \<open>
  The variables the loop of lines 349 to 362 updates: the run's tallies (\<open>high\<close>,
  \<open>medium\<close>, \<open>low\<close>, \<open>total_risk\<close> in the source) and the cohort array.
\<close>

record aggregation =
  total_risk :: real
  high_count :: int
  medium_count :: int
  low_count :: int
  cohorts :: "CohortSummary list"

definition aggregate_step :: "aggregation \<Rightarrow> Scholar \<Rightarrow> aggregation" where
  "aggregate_step st s =
     (let st = st\<lparr>total_risk := total_risk st + risk_score s\<rparr>;
          tier = risk_tier (risk_score s);
          st = (if tier = ''high'' then st\<lparr>high_count := high_count st + 1\<rparr>
                else if tier = ''medium'' then st\<lparr>medium_count := medium_count st + 1\<rparr>
                else st\<lparr>low_count := low_count st + 1\<rparr>);
          (array, i) = find_or_create_cohort (cohorts st) (cohort s);
          cs = array ! i;
          cs = cs\<lparr>total := total cs + 1\<rparr>;
          cs = cs\<lparr>avg_risk := avg_risk cs + risk_score s\<rparr>;
          cs = (if tier = ''high'' then cs\<lparr>high := high cs + 1\<rparr>
                else if tier = ''medium'' then cs\<lparr>medium := medium cs + 1\<rparr>
                else cs\<lparr>low := low cs + 1\<rparr>)
      in st\<lparr>cohorts := array[i := cs]\<rparr>)"

definition aggregate :: "Scholar list \<Rightarrow> aggregation" where
  "aggregate scholars =
     foldl aggregate_step
       \<lparr>total_risk = 0.0, high_count = 0, medium_count = 0, low_count = 0, cohorts = []\<rparr>
       scholars"

section \<open>\<open>main\<close>: loading, export and the action queue\<close>

text \<open>
  The options the modelled part of \<open>main\<close> reads, and a line of the input after the
  split into fields: a line with fewer than 10 fields is skipped, any other gives a
  scholar (whose \<open>risk_score\<close> is not yet set).
\<close>

record options =
  limit :: int
  min_risk :: real
  cohort_filter :: "string option"
  export_path :: "string option"
  summary_path :: "string option"
  json :: bool

datatype csv_row = Too_few_fields | Fields Scholar

text \<open>
  The reading loop (lines 247 to 293) on one line; its state is the array and \<open>skipped\<close>.
  The score is the one binary64 arithmetic gives.
\<close>

definition load_row ::
  "(real \<Rightarrow> real) \<Rightarrow> string option \<Rightarrow> Scholar list \<times> int \<Rightarrow> csv_row \<Rightarrow> Scholar list \<times> int" where
  "load_row rnd cfilter st row =
     (case st of (scholars, skipped) \<Rightarrow>
        (case row of
           Too_few_fields \<Rightarrow> (scholars, skipped + 1)
         | Fields s0 \<Rightarrow>
             (let s = s0\<lparr>risk_score := compute_risk_fp rnd s0\<rparr> in
              if cfilter \<noteq> None \<and> cohort s \<noteq> the cfilter then (scholars, skipped)
              else (scholars @ [s], skipped))))"

definition load_rows ::
  "(real \<Rightarrow> real) \<Rightarrow> string option \<Rightarrow> csv_row list \<Rightarrow> Scholar list \<times> int" where
  "load_rows rnd cfilter rows = foldl (load_row rnd cfilter) ([], 0) rows"

text \<open>
  The three loops that select scholars from the sorted array, each returning the scholars
  it writes, in order: the export loop (lines 316 to 336), the action queue of the JSON
  output (lines 422 to 441) and of the text output (lines 494 to 511). The two queue
  loops carry \<open>printed\<close>.
\<close>

fun export_loop :: "real \<Rightarrow> Scholar list \<Rightarrow> Scholar list" where
  "export_loop mr [] = []"
| "export_loop mr (s # rest) =
     (if risk_score s < mr then export_loop mr rest
      else s # export_loop mr rest)"

fun json_queue_loop :: "int \<Rightarrow> real \<Rightarrow> int \<Rightarrow> Scholar list \<Rightarrow> Scholar list" where
  "json_queue_loop limit_n mr printed [] = []"
| "json_queue_loop limit_n mr printed (s # rest) =
     (if printed < limit_n then
        (if risk_score s < mr then json_queue_loop limit_n mr printed rest
         else s # json_queue_loop limit_n mr (printed + 1) rest)
      else [])"

fun text_queue_loop :: "int \<Rightarrow> real \<Rightarrow> int \<Rightarrow> Scholar list \<Rightarrow> Scholar list" where
  "text_queue_loop limit_n mr printed [] = []"
| "text_queue_loop limit_n mr printed (s # rest) =
     (if printed < limit_n then
        (if risk_score s < mr then text_queue_loop limit_n mr printed rest
         else s # text_queue_loop limit_n mr (printed + 1) rest)
      else [])"

text \<open>
  What a run that gets to its output leaves behind, as data: the sorted array (which
  \<open>-json-full\<close> lists as "records"), the rows of the export file when \<open>-export\<close> is given,
  the rows of the summary file when \<open>-summary\<close> is given, the tallies and cohorts, the
  action queue, and whether the text output ends with "No scholars met the minimum risk
  threshold." (\<open>printed == 0\<close>; the JSON output has no such line). The cohort focus and the
  rendering of numbers are not modelled.
\<close>

record report =
  ranked :: "Scholar list"
  record_count :: int
  skipped_rows :: int
  exported :: "Scholar list option"
  summary_rows :: "CohortSummary list option"
  tallies :: aggregation
  action_queue :: "Scholar list"
  threshold_notice :: bool

definition build_report :: "options \<Rightarrow> Scholar list \<Rightarrow> int \<Rightarrow> report" where
  "build_report opts scholars skipped =
     (let queue = (if json opts then json_queue_loop (limit opts) (min_risk opts) 0 scholars
                   else text_queue_loop (limit opts) (min_risk opts) 0 scholars);
          printed = int (length queue)
      in \<lparr>ranked = scholars,
          record_count = int (length scholars),
          skipped_rows = skipped,
          exported = (case export_path opts of
                        None \<Rightarrow> None
                      | Some p \<Rightarrow> Some (export_loop (min_risk opts) scholars)),
          summary_rows = (case summary_path opts of
                            None \<Rightarrow> None
                          | Some p \<Rightarrow> Some (cohorts (aggregate scholars))),
          tallies = aggregate scholars,
          action_queue = queue,
          threshold_notice = (\<not> json opts \<and> printed = 0)\<rparr>)"

text \<open>
  \<open>main\<close> from the reading loop on, that is once the input file is open. The ways it can
  end, in the order it reaches them:
  \<^item> \<open>count == 0\<close> after reading: "No records loaded." on stderr, exit status 1;
  \<^item> the export file does not open: "Failed to write export" on stderr, exit status 1;
  \<^item> the summary file does not open: "Failed to write summary" on stderr, exit status 1,
    the export file (if any) already written;
  \<^item> otherwise the report, exit status 0.
  \<open>opens p\<close> says whether \<open>fopen(p, "w")\<close> succeeds.
\<close>

datatype outcome =
  No_records_loaded
  | Failed_to_write_export
  | Failed_to_write_summary "Scholar list option"
  | Report report

definition main_run ::
  "(real \<Rightarrow> real) \<Rightarrow> (string \<Rightarrow> bool) \<Rightarrow> options \<Rightarrow> csv_row list \<Rightarrow> outcome" where
  "main_run rnd opens opts rows =
     (case load_rows rnd (cohort_filter opts) rows of (loaded, skipped) \<Rightarrow>
        let count = length loaded
        in if count = 0 then No_records_loaded
           else (let scholars = qsort compare_risk_desc loaded
                 in if export_path opts \<noteq> None \<and> \<not> opens (the (export_path opts))
                    then Failed_to_write_export
                    else if summary_path opts \<noteq> None \<and> \<not> opens (the (summary_path opts))
                    then Failed_to_write_summary (exported (build_report opts scholars skipped))
                    else Report (build_report opts scholars skipped)))"

section \<open>Example inputs\<close>

text \<open>
  Arithmetic without rounding, for the examples: their inputs are chosen so that the
  scores and terms the program computes in binary64 are the exact ones.
\<close>

definition exact :: "real \<Rightarrow> real" where
  "exact x = x"

text \<open>An environment in which every output file opens.\<close>

definition every_file_opens :: "string \<Rightarrow> bool" where
  "every_file_opens p = True"

text \<open>
  The line \<open>i,i,c,0,100,100,4,d,100,0\<close> after parsing: a scholar whose only signal away
  from its best value is \<open>last_contact_days\<close>, so that the risk score is \<open>0.4 * d\<close> (up to
  the clamp).
\<close>

definition perfect_but :: "string \<Rightarrow> string \<Rightarrow> real \<Rightarrow> Scholar" where
  "perfect_but i c d =
     \<lparr>scholar_id = i, name = i, cohort = c, days_inactive = 0, attendance_rate = 100,
      engagement_score = 100, gpa = 4, last_contact_days = d, survey_score = 100,
      open_flags = 0, risk_score = 0\<rparr>"

text \<open>The specification's cohort of three records, with scores 80, 60 and 40.\<close>

definition three_of_cohort_A :: "csv_row list" where
  "three_of_cohort_A =
     [Fields (perfect_but ''s1'' ''A'' 200), Fields (perfect_but ''s2'' ''A'' 150),
      Fields (perfect_but ''s3'' ''A'' 100)]"

text \<open>
  The line \<open>s1,s1,A,0,100,50,3,0,100,0\<close>: engagement 50 and gpa 3.0 give the terms
  engagement \<open>50 * 0.25\<close> and gpa \<open>1.0 * 12.5\<close>, both 12.5 (exactly, also as doubles), and
  every other term is 0.
\<close>

definition tied_terms_scholar :: Scholar where
  "tied_terms_scholar = (perfect_but ''s1'' ''A'' 0)\<lparr>engagement_score := 50, gpa := 3\<rparr>"

text \<open>
  A stand-in for \<open>%.1f\<close> in the examples, which format no number but 12.5: it writes
  "12.5" as \<open>printf\<close> does.
\<close>

definition fmt_of_12_5 :: "real \<Rightarrow> string" where
  "fmt_of_12_5 v = ''12.5''"

text \<open>The options of a run given only the file name (lines 195 to 202).\<close>

definition default_options :: options where
  "default_options =
     \<lparr>limit = 10, min_risk = 0.0, cohort_filter = None, export_path = None,
      summary_path = None, json = False\<rparr>"

section \<open>Properties of the RiskModel and the Classifier\<close>

lemma clamp_bounds: "lo \<le> hi \<Longrightarrow> lo \<le> clamp v lo hi \<and> clamp v lo hi \<le> hi"
  by (simp add: clamp_def)

lemma clamp_mono: "lo \<le> hi \<Longrightarrow> v \<le> w \<Longrightarrow> clamp v lo hi \<le> clamp w lo hi"
  by (auto simp: clamp_def)

text \<open>
  C1. For every scholar record the risk score computed by \<open>compute_risk\<close> lies in the
  closed interval from 0 to 100.
\<close>

theorem compute_risk_bounded: "0 \<le> compute_risk s \<and> compute_risk s \<le> 100"
  using clamp_bounds [of 0 100] by (simp add: compute_risk_def Let_def)

text \<open>
  C2. The record with days_inactive 40, attendance_rate 50, engagement_score 80, gpa 3.0,
  last_contact_days 10, survey_score 90 and open_flags 1 (whatever its identifier, name
  and cohort) scores exactly 70.5, that score is in tier "medium", and the action for the
  record is "re-engage outreach".
\<close>

theorem example_record_scored:
  "compute_risk \<lparr>scholar_id = i, name = n, cohort = c, days_inactive = 40,
       attendance_rate = 50, engagement_score = 80, gpa = 3.0, last_contact_days = 10,
       survey_score = 90, open_flags = 1, risk_score = r\<rparr> = 70.5
   \<and> risk_tier (compute_risk \<lparr>scholar_id = i, name = n, cohort = c, days_inactive = 40,
       attendance_rate = 50, engagement_score = 80, gpa = 3.0, last_contact_days = 10,
       survey_score = 90, open_flags = 1, risk_score = r\<rparr>) = ''medium''
   \<and> action_hint \<lparr>scholar_id = i, name = n, cohort = c, days_inactive = 40,
       attendance_rate = 50, engagement_score = 80, gpa = 3.0, last_contact_days = 10,
       survey_score = 90, open_flags = 1, risk_score = r\<rparr> = ''re-engage outreach''"
  by (simp add: compute_risk_def clamp_def risk_tier_def action_hint_def)

text \<open>
  C7. The recommended action is decided by the ordered decision list, first match
  winning: days_inactive at least 30 gives "re-engage outreach", else attendance_rate
  below 70 gives "attendance support", else gpa below 2.5 gives "academic support", else
  open_flags above 0 gives "resolve open flags", else engagement_score below 60 gives
  "engagement nudge", else "lightweight check-in".
\<close>

theorem action_hint_first_match:
  "action_hint s = first_match action_rules ''lightweight check-in'' s"
  by (simp add: action_hint_def action_rules_def)

lemma compute_risk_mono:
  assumes "days_inactive a \<le> days_inactive b" "last_contact_days a \<le> last_contact_days b"
    "open_flags a \<le> open_flags b" "attendance_rate b \<le> attendance_rate a"
    "engagement_score b \<le> engagement_score a" "gpa b \<le> gpa a"
    "survey_score b \<le> survey_score a"
  shows "compute_risk a \<le> compute_risk b"
proof -
  have g: "clamp (4.0 - gpa a) 0.0 4.0 \<le> clamp (4.0 - gpa b) 0.0 4.0"
    using assms by (intro clamp_mono) simp_all
  have at: "clamp (100.0 - attendance_rate a) 0.0 100.0
      \<le> clamp (100.0 - attendance_rate b) 0.0 100.0"
    using assms by (intro clamp_mono) simp_all
  have en: "clamp (100.0 - engagement_score a) 0.0 100.0
      \<le> clamp (100.0 - engagement_score b) 0.0 100.0"
    using assms by (intro clamp_mono) simp_all
  have su: "clamp (100.0 - survey_score a) 0.0 100.0 \<le> clamp (100.0 - survey_score b) 0.0 100.0"
    using assms by (intro clamp_mono) simp_all
  have fl: "real_of_int (open_flags a) \<le> real_of_int (open_flags b)"
    using assms by simp
  show ?thesis
    unfolding compute_risk_def Let_def
    using g at en su fl assms(1,2) by (intro clamp_mono) simp_all
qed

text \<open>
  C8. The risk score is monotonic non-decreasing in the badness direction of each signal,
  all else fixed: raising days_inactive, last_contact_days or open_flags never lowers the
  score, and neither does lowering gpa, attendance_rate, engagement_score or
  survey_score.
\<close>

theorem compute_risk_monotone:
  "(d \<le> d' \<longrightarrow> compute_risk (s\<lparr>days_inactive := d\<rparr>) \<le> compute_risk (s\<lparr>days_inactive := d'\<rparr>))
   \<and> (c \<le> c' \<longrightarrow>
        compute_risk (s\<lparr>last_contact_days := c\<rparr>) \<le> compute_risk (s\<lparr>last_contact_days := c'\<rparr>))
   \<and> (f \<le> f' \<longrightarrow> compute_risk (s\<lparr>open_flags := f\<rparr>) \<le> compute_risk (s\<lparr>open_flags := f'\<rparr>))
   \<and> (g' \<le> g \<longrightarrow> compute_risk (s\<lparr>gpa := g\<rparr>) \<le> compute_risk (s\<lparr>gpa := g'\<rparr>))
   \<and> (a' \<le> a \<longrightarrow>
        compute_risk (s\<lparr>attendance_rate := a\<rparr>) \<le> compute_risk (s\<lparr>attendance_rate := a'\<rparr>))
   \<and> (e' \<le> e \<longrightarrow>
        compute_risk (s\<lparr>engagement_score := e\<rparr>) \<le> compute_risk (s\<lparr>engagement_score := e'\<rparr>))
   \<and> (v' \<le> v \<longrightarrow>
        compute_risk (s\<lparr>survey_score := v\<rparr>) \<le> compute_risk (s\<lparr>survey_score := v'\<rparr>))"
  by (intro conjI impI compute_risk_mono) simp_all

theorem compute_risk_monotone_witness:
  "compute_risk ((perfect_but ''s1'' ''A'' 10)\<lparr>days_inactive := 10\<rparr>)
     \<le> compute_risk ((perfect_but ''s1'' ''A'' 10)\<lparr>days_inactive := 20\<rparr>)
   \<and> compute_risk ((perfect_but ''s1'' ''A'' 10)\<lparr>last_contact_days := 10\<rparr>)
     \<le> compute_risk ((perfect_but ''s1'' ''A'' 10)\<lparr>last_contact_days := 20\<rparr>)
   \<and> compute_risk ((perfect_but ''s1'' ''A'' 10)\<lparr>open_flags := 1\<rparr>)
     \<le> compute_risk ((perfect_but ''s1'' ''A'' 10)\<lparr>open_flags := 2\<rparr>)
   \<and> compute_risk ((perfect_but ''s1'' ''A'' 10)\<lparr>gpa := 3\<rparr>)
     \<le> compute_risk ((perfect_but ''s1'' ''A'' 10)\<lparr>gpa := 2\<rparr>)
   \<and> compute_risk ((perfect_but ''s1'' ''A'' 10)\<lparr>attendance_rate := 90\<rparr>)
     \<le> compute_risk ((perfect_but ''s1'' ''A'' 10)\<lparr>attendance_rate := 80\<rparr>)
   \<and> compute_risk ((perfect_but ''s1'' ''A'' 10)\<lparr>engagement_score := 90\<rparr>)
     \<le> compute_risk ((perfect_but ''s1'' ''A'' 10)\<lparr>engagement_score := 80\<rparr>)
   \<and> compute_risk ((perfect_but ''s1'' ''A'' 10)\<lparr>survey_score := 90\<rparr>)
     \<le> compute_risk ((perfect_but ''s1'' ''A'' 10)\<lparr>survey_score := 80\<rparr>)"
  using compute_risk_monotone
    [where s = "perfect_but ''s1'' ''A'' 10" and d = 10 and d' = 20 and c = 10 and c' = 20
       and f = 1 and f' = 2 and g = 3 and g' = 2 and a = 90 and a' = 80 and e = 90
       and e' = 80 and v = 90 and v' = 80]
  by simp

text \<open>
  The rounded score is the score above when nothing is rounded, and it stays between the
  doubles of 0 and 100 whatever the rounding.
\<close>

lemma compute_risk_fp_exact: "compute_risk_fp exact s = compute_risk s"
  by (simp add: compute_risk_fp_def compute_risk_def exact_def)

lemma compute_risk_fp_bounded:
  "rnd 0 \<le> rnd 100 \<Longrightarrow>
   rnd 0 \<le> compute_risk_fp rnd s \<and> compute_risk_fp rnd s \<le> rnd 100"
  using clamp_bounds [of "rnd 0" "rnd 100"] by (simp add: compute_risk_fp_def Let_def)

section \<open>Properties of the CohortAggregator\<close>

lemma find_cohort_Some:
  "find_cohort cs nm = Some i \<Longrightarrow> i < length cs \<and> cohort_name (cs ! i) = nm"
  by (induction cs arbitrary: i) (auto split: if_splits)

lemma find_cohort_None:
  "find_cohort cs nm = None \<Longrightarrow> nm \<notin> cohort_name ` set cs"
  by (induction cs) (auto split: if_splits)

lemma aggregate_snoc: "aggregate (ss @ [s]) = aggregate_step (aggregate ss) s"
  by (simp add: aggregate_def)

text \<open>One pass of the loop body rewrites the summary it looked up, and only that one.\<close>

lemma cohorts_step:
  assumes "find_or_create_cohort (cohorts st) (cohort s) = (array, i)"
  shows "\<exists>c'. cohorts (aggregate_step st s) = array[i := c'] \<and>
           cohort_name c' = cohort_name (array ! i) \<and>
           total c' = total (array ! i) + 1 \<and>
           high c' + medium c' + low c' =
             high (array ! i) + medium (array ! i) + low (array ! i) + 1"
  using assms by (fastforce simp add: aggregate_step_def Let_def)

text \<open>
  The loop invariant: cohort names are unique, they are the cohorts of the records
  folded so far, and every summary's counters agree with those records.
\<close>

lemma aggregate_invariant:
  "distinct (map cohort_name (cohorts (aggregate ss))) \<and>
   cohort_name ` set (cohorts (aggregate ss)) = cohort ` set ss \<and>
   (\<forall>j < length (cohorts (aggregate ss)).
      high (cohorts (aggregate ss) ! j) + medium (cohorts (aggregate ss) ! j)
        + low (cohorts (aggregate ss) ! j) = total (cohorts (aggregate ss) ! j) \<and>
      total (cohorts (aggregate ss) ! j) =
        int (length (filter (\<lambda>x. cohort x = cohort_name (cohorts (aggregate ss) ! j)) ss)))"
proof (induction ss rule: rev_induct)
  case Nil
  then show ?case by (simp add: aggregate_def)
next
  case (snoc s ss)
  let ?cs = "cohorts (aggregate ss)"
  let ?cs' = "cohorts (aggregate (ss @ [s]))"
  let ?n = "\<lambda>nm xs. int (length (filter (\<lambda>x. cohort x = nm) xs))"
  from snoc have dist: "distinct (map cohort_name ?cs)"
    and names: "cohort_name ` set ?cs = cohort ` set ss"
    and sums: "\<And>j. j < length ?cs \<Longrightarrow>
        high (?cs ! j) + medium (?cs ! j) + low (?cs ! j) = total (?cs ! j)"
    and tot: "\<And>j. j < length ?cs \<Longrightarrow> total (?cs ! j) = ?n (cohort_name (?cs ! j)) ss"
    by auto
  show ?case
  proof (cases "find_cohort ?cs (cohort s)")
    case None
    then have new: "cohort s \<notin> cohort_name ` set ?cs" by (rule find_cohort_None)
    let ?fresh = "\<lparr>cohort_name = cohort s, total = 0, high = 0, medium = 0, low = 0,
                    avg_risk = 0.0\<rparr>"
    have foc: "find_or_create_cohort ?cs (cohort s) = (?cs @ [?fresh], length ?cs)"
      using None by (simp add: find_or_create_cohort_def)
    from cohorts_step[OF foc] obtain c' where
      eq: "cohorts (aggregate_step (aggregate ss) s) = (?cs @ [?fresh])[length ?cs := c']"
      and nm: "cohort_name c' = cohort s" and t: "total c' = 1"
      and h: "high c' + medium c' + low c' = 1"
      by auto
    have eq': "?cs' = ?cs @ [c']" using eq by (simp add: aggregate_snoc)
    have none: "filter (\<lambda>x. cohort x = cohort s) ss = []"
    proof -
      from new names have "cohort s \<notin> cohort ` set ss" by simp
      then have "\<And>x. x \<in> set ss \<Longrightarrow> cohort x \<noteq> cohort s" by (metis image_eqI)
      then show ?thesis by (simp add: filter_empty_conv)
    qed
    have old: "cohort_name (?cs ! j) \<noteq> cohort s" if "j < length ?cs" for j
      using new that by (metis image_eqI nth_mem)
    have 1: "distinct (map cohort_name ?cs')" using dist new nm by (simp add: eq')
    have 2: "cohort_name ` set ?cs' = cohort ` set (ss @ [s])"
      using names nm by (simp add: eq')
    have 3: "high (?cs' ! j) + medium (?cs' ! j) + low (?cs' ! j) = total (?cs' ! j) \<and>
             total (?cs' ! j) = ?n (cohort_name (?cs' ! j)) (ss @ [s])"
      if "j < length ?cs'" for j
    proof (cases "j < length ?cs")
      case True
      then show ?thesis using sums[OF True] tot[OF True] old[OF True]
        by (simp add: eq' nth_append)
    next
      case False
      with that have "j = length ?cs" by (simp add: eq')
      then show ?thesis using h t nm none by (simp add: eq')
    qed
    from 1 2 3 show ?thesis by blast
  next
    case (Some i)
    then have i: "i < length ?cs" and inm: "cohort_name (?cs ! i) = cohort s"
      using find_cohort_Some by blast+
    have foc: "find_or_create_cohort ?cs (cohort s) = (?cs, i)"
      using Some by (simp add: find_or_create_cohort_def)
    from cohorts_step[OF foc] obtain c' where
      eq: "cohorts (aggregate_step (aggregate ss) s) = ?cs[i := c']"
      and nm: "cohort_name c' = cohort s" and t: "total c' = total (?cs ! i) + 1"
      and h: "high c' + medium c' + low c'
                = high (?cs ! i) + medium (?cs ! i) + low (?cs ! i) + 1"
      using inm by auto
    have eq': "?cs' = ?cs[i := c']" using eq by (simp add: aggregate_snoc)
    have mapeq: "map cohort_name ?cs' = map cohort_name ?cs"
      using i inm nm by (simp add: eq' map_update list_update_same_conv)
    have other: "cohort_name (?cs ! j) \<noteq> cohort s" if "j < length ?cs" "j \<noteq> i" for j
      using dist that i inm by (metis length_map nth_eq_iff_index_eq nth_map)
    have 1: "distinct (map cohort_name ?cs')" using dist mapeq by simp
    have "cohort s \<in> cohort_name ` set ?cs" using i inm by (metis image_eqI nth_mem)
    moreover have "cohort_name ` set ?cs' = cohort_name ` set ?cs"
      using mapeq by (metis image_set)
    ultimately have 2: "cohort_name ` set ?cs' = cohort ` set (ss @ [s])"
      using names by auto
    have 3: "high (?cs' ! j) + medium (?cs' ! j) + low (?cs' ! j) = total (?cs' ! j) \<and>
             total (?cs' ! j) = ?n (cohort_name (?cs' ! j)) (ss @ [s])"
      if "j < length ?cs'" for j
    proof (cases "j = i")
      case True
      then show ?thesis using sums[OF i] tot[OF i] h t nm inm i by (simp add: eq')
    next
      case False
      from that have j: "j < length ?cs" by (simp add: eq')
      show ?thesis using sums[OF j] tot[OF j] other[OF j False] False by (simp add: eq')
    qed
    from 1 2 3 show ?thesis by blast
  qed
qed

text \<open>
  C3. In every cohort summary produced by folding a finite sequence of scored records,
  high + medium + low equals total, and total equals the number of records of that
  cohort in the sequence.
\<close>

theorem cohort_summary_counts:
  assumes "c \<in> set (cohorts (aggregate scholars))"
  shows "high c + medium c + low c = total c \<and>
         total c = int (length (filter (\<lambda>s. cohort s = cohort_name c) scholars))"
proof -
  from assms obtain j where "j < length (cohorts (aggregate scholars))"
    and "cohorts (aggregate scholars) ! j = c"
    by (auto simp: in_set_conv_nth)
  with aggregate_invariant [of scholars] show ?thesis by blast
qed

lemma three_loaded:
  "fst (load_rows exact None three_of_cohort_A) =
     [(perfect_but ''s1'' ''A'' 200)\<lparr>risk_score := 80\<rparr>,
      (perfect_but ''s2'' ''A'' 150)\<lparr>risk_score := 60\<rparr>,
      (perfect_but ''s3'' ''A'' 100)\<lparr>risk_score := 40\<rparr>]"
  by (simp add: load_rows_def load_row_def three_of_cohort_A_def perfect_but_def
      compute_risk_fp_def exact_def clamp_def)

lemma three_aggregated:
  "cohorts (aggregate (fst (load_rows exact None three_of_cohort_A))) =
     [\<lparr>cohort_name = ''A'', total = 3, high = 1, medium = 1, low = 1, avg_risk = 180\<rparr>]"
  by (simp add: three_loaded aggregate_def aggregate_step_def find_or_create_cohort_def
      risk_tier_def perfect_but_def)

theorem cohort_summary_counts_witness:
  "\<lparr>cohort_name = ''A'', total = 3, high = 1, medium = 1, low = 1, avg_risk = 180\<rparr>
     \<in> set (cohorts (aggregate (fst (load_rows exact None three_of_cohort_A))))
   \<and> (1::int) + 1 + 1 = 3
   \<and> length (filter (\<lambda>s. cohort s = ''A'') (fst (load_rows exact None three_of_cohort_A))) = 3"
proof -
  have h: "\<lparr>cohort_name = ''A'', total = 3, high = 1, medium = 1, low = 1, avg_risk = 180\<rparr>
     \<in> set (cohorts (aggregate (fst (load_rows exact None three_of_cohort_A))))"
    by (simp add: three_aggregated)
  from cohort_summary_counts [OF h] h show ?thesis by simp
qed

section \<open>Properties of the export and action-queue loops\<close>

lemma json_queue_is_text_queue: "json_queue_loop l m p ss = text_queue_loop l m p ss"
  by (induction l m p ss rule: json_queue_loop.induct) auto

lemma export_loop_filter: "export_loop m ss = filter (\<lambda>s. risk_score s \<ge> m) ss"
  by (induction ss) auto

lemma text_queue_take: "text_queue_loop l m p ss = take (nat (l - p)) (export_loop m ss)"
proof (induction l m p ss rule: text_queue_loop.induct)
  case (1 l m p)
  then show ?case by simp
next
  case (2 l m p s rest)
  show ?case
  proof (cases "p < l")
    case True
    then have "nat (l - p) = Suc (nat (l - (p + 1)))" by simp
    with 2 True show ?thesis by auto
  next
    case False
    then show ?thesis by simp
  qed
qed

text \<open>
  C10, as the code has it. The export loop and both action-queue loops apply the same
  filter, risk_score at least the threshold, to the same sorted array; the limit is
  applied by the two action-queue loops only, identically. So the action queue (text or
  JSON) is the first N scholars of what the export loop selects, and the export selects
  every scholar at or above the threshold.
\<close>

theorem queue_is_limited_export:
  "export_loop m ss = filter (\<lambda>s. risk_score s \<ge> m) ss
   \<and> text_queue_loop l m 0 ss = take (nat l) (export_loop m ss)
   \<and> json_queue_loop l m 0 ss = text_queue_loop l m 0 ss"
  using text_queue_take [of l m 0 ss] by (simp add: json_queue_is_text_queue export_loop_filter)

text \<open>
  C10 as stated fails: run with \<open>-limit 1 -export out.csv\<close> on two scholars with scores
  80 and 60, the export file gets both and the action queue only the first.
\<close>

theorem export_not_limited_counterexample:
  "exported (build_report (default_options\<lparr>limit := 1, export_path := Some ''out.csv''\<rparr>)
      [(perfect_but ''s1'' ''A'' 200)\<lparr>risk_score := 80\<rparr>,
       (perfect_but ''s2'' ''A'' 150)\<lparr>risk_score := 60\<rparr>] 0)
     = Some [(perfect_but ''s1'' ''A'' 200)\<lparr>risk_score := 80\<rparr>,
             (perfect_but ''s2'' ''A'' 150)\<lparr>risk_score := 60\<rparr>]
   \<and> action_queue (build_report (default_options\<lparr>limit := 1, export_path := Some ''out.csv''\<rparr>)
      [(perfect_but ''s1'' ''A'' 200)\<lparr>risk_score := 80\<rparr>,
       (perfect_but ''s2'' ''A'' 150)\<lparr>risk_score := 60\<rparr>] 0)
     = [(perfect_but ''s1'' ''A'' 200)\<lparr>risk_score := 80\<rparr>]"
  by (simp add: build_report_def default_options_def perfect_but_def)

section \<open>Properties of the sorting routine and the Ranker\<close>

lemma compare_risk_desc_le: "compare_risk_desc a b \<le> 0 \<longleftrightarrow> risk_score b \<le> risk_score a"
  by (simp add: compare_risk_desc_def)

lemma compare_driver_desc_le: "compare_driver_desc a b \<le> 0 \<longleftrightarrow> value_d b \<le> value_d a"
  by (simp add: compare_driver_desc_def)

text \<open>
  For a comparison function that orders by a key, the modelled routine is the library's
  insertion sort by that key.
\<close>

lemma insert_sorted_insort_key:
  fixes key :: "'a \<Rightarrow> real"
  assumes "\<And>a b. cmp a b \<le> 0 \<longleftrightarrow> key a \<le> key b"
  shows "insert_sorted cmp x ys = insort_key key x ys"
  by (induction ys) (simp_all add: assms)

lemma qsort_sort_key:
  fixes key :: "'a \<Rightarrow> real"
  assumes "\<And>a b. cmp a b \<le> 0 \<longleftrightarrow> key a \<le> key b"
  shows "qsort cmp xs = sort_key key xs"
proof -
  have "insert_sorted cmp = insort_key key"
    using insert_sorted_insort_key [of cmp key, OF assms] by (intro ext)
  then show ?thesis by (simp add: qsort_def sort_key_def)
qed

lemma qsort_descending:
  fixes key :: "'a \<Rightarrow> real"
  assumes "\<And>a b. cmp a b \<le> 0 \<longleftrightarrow> key b \<le> key a"
  shows "sorted_wrt (\<lambda>a b. key b \<le> key a) (qsort cmp xs)"
    and "mset (qsort cmp xs) = mset xs"
    and "filter (\<lambda>x. key x = k) (qsort cmp xs) = filter (\<lambda>x. key x = k) xs"
proof -
  have eq: "qsort cmp xs = sort_key (\<lambda>x. - key x) xs"
    by (rule qsort_sort_key) (simp add: assms)
  have "sorted (map (\<lambda>x. - key x) (sort_key (\<lambda>x. - key x) xs))" by (rule sorted_sort_key)
  then show "sorted_wrt (\<lambda>a b. key b \<le> key a) (qsort cmp xs)"
    by (simp add: eq sorted_map)
  show "mset (qsort cmp xs) = mset xs" by (simp add: eq)
  have "filter (\<lambda>x. - key x = - k) (sort_key (\<lambda>x. - key x) xs) = filter (\<lambda>x. - key x = - k) xs"
    by (rule sort_key_stable)
  then show "filter (\<lambda>x. key x = k) (qsort cmp xs) = filter (\<lambda>x. key x = k) xs"
    by (simp add: eq)
qed

text \<open>
  C4. The Ranker orders scholars by risk_score descending: the sorted array is a
  permutation of the input in which no scholar stands before one of higher risk_score.
  And for any input sequence the scholars of any one risk_score stand in the sorted array
  in the order the input has them, so two scholars with equal risk_score retain their
  relative order. The comparison is the program's \<open>compare_risk_desc\<close>; the stability is
  that of the sorting routine as the specification describes it.
\<close>

theorem ranker_descending_stable:
  "sorted_wrt (\<lambda>a b. risk_score b \<le> risk_score a) (qsort compare_risk_desc scholars)
   \<and> mset (qsort compare_risk_desc scholars) = mset scholars
   \<and> (\<forall>k. filter (\<lambda>s. risk_score s = k) (qsort compare_risk_desc scholars)
            = filter (\<lambda>s. risk_score s = k) scholars)"
  using qsort_descending [of compare_risk_desc risk_score, OF compare_risk_desc_le]
  by blast

theorem ranker_descending_stable_witness:
  "filter (\<lambda>s. risk_score s = 40)
     (qsort compare_risk_desc
        [(perfect_but ''s1'' ''A'' 100)\<lparr>risk_score := 40\<rparr>,
         (perfect_but ''s2'' ''A'' 200)\<lparr>risk_score := 80\<rparr>,
         (perfect_but ''s3'' ''A'' 100)\<lparr>risk_score := 40\<rparr>])
   = [(perfect_but ''s1'' ''A'' 100)\<lparr>risk_score := 40\<rparr>,
      (perfect_but ''s3'' ''A'' 100)\<lparr>risk_score := 40\<rparr>]"
proof -
  from ranker_descending_stable
    [of "[(perfect_but ''s1'' ''A'' 100)\<lparr>risk_score := 40\<rparr>,
         (perfect_but ''s2'' ''A'' 200)\<lparr>risk_score := 80\<rparr>,
         (perfect_but ''s3'' ''A'' 100)\<lparr>risk_score := 40\<rparr>]"]
  have "filter (\<lambda>s. risk_score s = 40)
     (qsort compare_risk_desc
        [(perfect_but ''s1'' ''A'' 100)\<lparr>risk_score := 40\<rparr>,
         (perfect_but ''s2'' ''A'' 200)\<lparr>risk_score := 80\<rparr>,
         (perfect_but ''s3'' ''A'' 100)\<lparr>risk_score := 40\<rparr>])
   = filter (\<lambda>s. risk_score s = 40)
        [(perfect_but ''s1'' ''A'' 100)\<lparr>risk_score := 40\<rparr>,
         (perfect_but ''s2'' ''A'' 200)\<lparr>risk_score := 80\<rparr>,
         (perfect_but ''s3'' ''A'' 100)\<lparr>risk_score := 40\<rparr>]"
    by blast
  then show ?thesis by simp
qed

section \<open>Properties of the DriverAnalyzer\<close>

text \<open>
  Before the \<open>qsort\<close> call the array holds the terms above the threshold, in declaration
  order.
\<close>

lemma collect_drivers_filter:
  "collect_drivers rnd s = filter (\<lambda>d. rnd 0.1 < value_d d) (driver_terms rnd s)"
  by (simp add: collect_drivers_def driver_terms_def push_driver_def Let_def)

lemma driver_labels:
  "map label (driver_terms rnd s) =
     [''inactivity'', ''contact gap'', ''attendance'', ''engagement'', ''gpa'', ''survey'',
      ''open flags'']"
  by (simp add: driver_terms_def Let_def)

lemma sorted_drivers_facts:
  "set (sorted_drivers rnd s) = {d \<in> set (driver_terms rnd s). rnd 0.1 < value_d d}"
  "sorted_drivers rnd s = [] \<longleftrightarrow> collect_drivers rnd s = []"
proof -
  have m: "mset (sorted_drivers rnd s) = mset (collect_drivers rnd s)"
    unfolding sorted_drivers_def
    by (rule qsort_descending(2) [of compare_driver_desc value_d, OF compare_driver_desc_le])
  then have "set (sorted_drivers rnd s) = set (collect_drivers rnd s)" by (rule mset_eq_setD)
  then show "set (sorted_drivers rnd s) = {d \<in> set (driver_terms rnd s). rnd 0.1 < value_d d}"
    by (simp add: collect_drivers_filter)
  from m show "sorted_drivers rnd s = [] \<longleftrightarrow> collect_drivers rnd s = []"
    by (metis mset_zero_iff)
qed

text \<open>The text \<open>format_drivers\<close> returns, with \<open>max\<close> resolved.\<close>

lemma format_drivers_text:
  "format_drivers rnd fmt s size_n =
     (if collect_drivers rnd s = [] then snprintf size_n ''stable''
      else write_chunks fmt size_n 0 (take 3 (sorted_drivers rnd s)) [])"
proof -
  have "length (sorted_drivers rnd s) = length (collect_drivers rnd s)"
    using qsort_descending(2) [of compare_driver_desc value_d, OF compare_driver_desc_le]
    unfolding sorted_drivers_def by (metis size_mset)
  then have "take (if length (collect_drivers rnd s) < 3 then length (collect_drivers rnd s) else 3)
      (sorted_drivers rnd s) = take 3 (sorted_drivers rnd s)"
    by simp
  then show ?thesis by (simp add: format_drivers_def Let_def)
qed

text \<open>With room left in the buffer the \<open>size_t\<close> expression does not wrap.\<close>

lemma room_fits:
  assumes "length buffer < size_n" "size_n \<le> 2 ^ 64"
  shows "room size_n buffer = size_n - length buffer - 1"
proof -
  let ?x = "int size_n - int (length buffer) - 1"
  have "0 \<le> ?x" using assms by simp
  moreover have "?x < 2 ^ 64"
  proof -
    have "int size_n \<le> 2 ^ 64"
      using assms(2) by (metis of_nat_le_iff of_nat_numeral of_nat_power)
    then show ?thesis by simp
  qed
  ultimately have "?x mod 2 ^ 64 = ?x" by (rule mod_pos_pos_trivial)
  then show ?thesis using assms by (simp add: room_def)
qed

lemma room_256: "length buffer \<le> 255 \<Longrightarrow> room 256 buffer = 255 - length buffer"
  using room_fits [of buffer 256] by simp

lemma write_chunks_prefix: "\<exists>tail_text. write_chunks fmt n i ds buffer = buffer @ tail_text"
proof (induction ds arbitrary: i buffer)
  case Nil
  then show ?case by simp
next
  case (Cons d ds)
  show ?case
    using Cons.IH by (simp add: Let_def strncat_def) (metis append.assoc)
qed

lemma first_chunk:
  "\<exists>tail_text. write_chunks fmt 256 0 (d # ds) []
      = take 63 (label d @ '' '' @ fmt (value_d d)) @ tail_text"
  using write_chunks_prefix [of fmt 256 1 ds "take 63 (label d @ '' '' @ fmt (value_d d))"]
  by (simp add: Let_def strncat_def snprintf_def room_256)

lemma label_not_stable:
  assumes "d \<in> set (driver_terms rnd s)"
  shows "take 63 (label d @ '' '' @ rest) @ tail_text \<noteq> ''stable''"
proof -
  from assms have "label d \<in> set (map label (driver_terms rnd s))" by simp
  then have "label d \<in> {''inactivity'', ''contact gap'', ''attendance'', ''engagement'', ''gpa'',
      ''survey'', ''open flags''}"
    unfolding driver_labels by simp
  then show ?thesis by auto
qed

lemma tied_collect:
  "collect_drivers exact tied_terms_scholar =
     [\<lparr>label = ''engagement'', value_d = 12.5\<rparr>, \<lparr>label = ''gpa'', value_d = 12.5\<rparr>]"
  by (simp add: collect_drivers_def driver_terms_def push_driver_def tied_terms_scholar_def
      perfect_but_def clamp_def exact_def)

lemma tied_sorted:
  "sorted_drivers exact tied_terms_scholar =
     [\<lparr>label = ''engagement'', value_d = 12.5\<rparr>, \<lparr>label = ''gpa'', value_d = 12.5\<rparr>]"
  by (simp add: sorted_drivers_def tied_collect qsort_def compare_driver_desc_def)

lemma tied_formatted:
  "format_drivers exact fmt_of_12_5 tied_terms_scholar driver_text_size
     = ''engagement 12.5; gpa 12.5''"
  by (simp add: format_drivers_def tied_collect tied_sorted Let_def strncat_def snprintf_def
      room_256 driver_text_size_def fmt_of_12_5_def)

text \<open>
  C5. For every record, the DriverAnalyzer sorts the qualifying driver terms (those above
  the threshold) by descending magnitude, and the terms of any one magnitude stand in the
  sorted array in the declared order: inactivity, contact gap, attendance, engagement,
  gpa, survey, open flags. The text it returns lists the first three of the sorted
  array. Magnitudes are the doubles the program computes; the comparison and the order
  before sorting are the program's, the stability is that of the sorting routine as the
  specification describes it.
\<close>

theorem drivers_descending_declared_ties:
  "sorted_wrt (\<lambda>a b. value_d b \<le> value_d a) (sorted_drivers rnd s)
   \<and> mset (sorted_drivers rnd s) = mset (filter (\<lambda>d. rnd 0.1 < value_d d) (driver_terms rnd s))
   \<and> (\<forall>v. filter (\<lambda>d. value_d d = v) (sorted_drivers rnd s)
            = filter (\<lambda>d. value_d d = v) (filter (\<lambda>d. rnd 0.1 < value_d d) (driver_terms rnd s)))
   \<and> map label (driver_terms rnd s) =
       [''inactivity'', ''contact gap'', ''attendance'', ''engagement'', ''gpa'', ''survey'',
        ''open flags'']
   \<and> format_drivers rnd fmt s driver_text_size =
       (if sorted_drivers rnd s = [] then ''stable''
        else write_chunks fmt driver_text_size 0 (take 3 (sorted_drivers rnd s)) [])"
proof -
  note q = qsort_descending [of compare_driver_desc value_d, OF compare_driver_desc_le]
  show ?thesis
    using q [where xs = "collect_drivers rnd s"] sorted_drivers_facts(2) [of rnd s]
    by (simp add: sorted_drivers_def [symmetric] collect_drivers_filter [symmetric]
        driver_labels format_drivers_text snprintf_def driver_text_size_def)
qed

theorem drivers_descending_declared_ties_witness:
  "sorted_drivers exact tied_terms_scholar =
     [\<lparr>label = ''engagement'', value_d = 12.5\<rparr>, \<lparr>label = ''gpa'', value_d = 12.5\<rparr>]
   \<and> filter (\<lambda>d. value_d d = 12.5)
       (filter (\<lambda>d. exact 0.1 < value_d d) (driver_terms exact tied_terms_scholar))
     = [\<lparr>label = ''engagement'', value_d = 12.5\<rparr>, \<lparr>label = ''gpa'', value_d = 12.5\<rparr>]"
proof -
  from drivers_descending_declared_ties [of exact tied_terms_scholar fmt_of_12_5]
  have "filter (\<lambda>d. value_d d = 12.5) (sorted_drivers exact tied_terms_scholar)
      = filter (\<lambda>d. value_d d = 12.5)
          (filter (\<lambda>d. exact 0.1 < value_d d) (driver_terms exact tied_terms_scholar))"
    by blast
  then have "filter (\<lambda>d. value_d d = 12.5)
       (filter (\<lambda>d. exact 0.1 < value_d d) (driver_terms exact tied_terms_scholar))
     = [\<lparr>label = ''engagement'', value_d = 12.5\<rparr>, \<lparr>label = ''gpa'', value_d = 12.5\<rparr>]"
    unfolding tied_sorted by simp
  with tied_sorted show ?thesis by (rule conjI)
qed

text \<open>
  C6. For every record, the text \<open>format_drivers\<close> returns is either "stable" or the
  chunks of the first three drivers of its sorted array; the drivers of that array are
  exactly the terms whose magnitude is above 0.1, so no term of magnitude 0.1 or less is
  ever returned; and the text is the sentinel "stable" if and only if all seven additive
  terms have magnitude 0.1 or less. Magnitudes are the doubles the program computes and
  0.1 is the double of the literal, as in the program's test \<open>x > 0.1\<close>.
\<close>

theorem drivers_material_or_stable:
  "format_drivers rnd fmt s driver_text_size =
       (if sorted_drivers rnd s = [] then ''stable''
        else write_chunks fmt driver_text_size 0 (take 3 (sorted_drivers rnd s)) [])
   \<and> set (sorted_drivers rnd s) = {d \<in> set (driver_terms rnd s). rnd 0.1 < value_d d}
   \<and> (format_drivers rnd fmt s driver_text_size = ''stable''
        \<longleftrightarrow> (\<forall>d\<in>set (driver_terms rnd s). value_d d \<le> rnd 0.1))"
proof -
  have buf: "format_drivers rnd fmt s driver_text_size =
       (if sorted_drivers rnd s = [] then ''stable''
        else write_chunks fmt driver_text_size 0 (take 3 (sorted_drivers rnd s)) [])"
    by (simp add: format_drivers_text sorted_drivers_facts(2) snprintf_def driver_text_size_def)
  have "format_drivers rnd fmt s driver_text_size = ''stable''
        \<longleftrightarrow> (\<forall>d\<in>set (driver_terms rnd s). value_d d \<le> rnd 0.1)"
  proof (cases "sorted_drivers rnd s")
    case Nil
    then have "{d \<in> set (driver_terms rnd s). rnd 0.1 < value_d d} = {}"
      using sorted_drivers_facts(1) [of rnd s] by simp
    then have "\<forall>d\<in>set (driver_terms rnd s). value_d d \<le> rnd 0.1"
      by (auto simp: not_less [symmetric])
    with Nil buf show ?thesis by simp
  next
    case (Cons d ds)
    then have "d \<in> set (sorted_drivers rnd s)" by simp
    then have dt: "d \<in> set (driver_terms rnd s)" and big: "rnd 0.1 < value_d d"
      using sorted_drivers_facts(1) [of rnd s] by auto
    obtain tail_text where
      "write_chunks fmt 256 0 (d # take 2 ds) []
         = take 63 (label d @ '' '' @ fmt (value_d d)) @ tail_text"
      using first_chunk by blast
    then have b: "format_drivers rnd fmt s driver_text_size
        = take 63 (label d @ '' '' @ fmt (value_d d)) @ tail_text"
      using buf Cons by (simp add: driver_text_size_def)
    have "format_drivers rnd fmt s driver_text_size \<noteq> ''stable''"
      unfolding b by (rule label_not_stable [OF dt])
    moreover from dt big have "\<not> (\<forall>d\<in>set (driver_terms rnd s). value_d d \<le> rnd 0.1)"
      by force
    ultimately show ?thesis by blast
  qed
  with buf sorted_drivers_facts(1) [of rnd s] show ?thesis by blast
qed

theorem drivers_material_or_stable_witness:
  "format_drivers exact fmt_of_12_5 tied_terms_scholar driver_text_size
     = ''engagement 12.5; gpa 12.5''
   \<and> ''engagement 12.5; gpa 12.5'' \<noteq> ''stable''
   \<and> \<not> list_all (\<lambda>d. value_d d \<le> exact 0.1) (driver_terms exact tied_terms_scholar)"
proof -
  from drivers_material_or_stable [of exact fmt_of_12_5 tied_terms_scholar]
  have "format_drivers exact fmt_of_12_5 tied_terms_scholar driver_text_size = ''stable''
        \<longleftrightarrow> (\<forall>d\<in>set (driver_terms exact tied_terms_scholar). value_d d \<le> exact 0.1)"
    by blast
  then have "\<not> (\<forall>d\<in>set (driver_terms exact tied_terms_scholar). value_d d \<le> exact 0.1)"
    by (simp add: tied_formatted)
  then have "\<not> list_all (\<lambda>d. value_d d \<le> exact 0.1) (driver_terms exact tied_terms_scholar)"
    by (simp add: list_all_iff)
  then show ?thesis by (simp add: tied_formatted)
qed

section \<open>Outcomes of a run\<close>

lemma queue_empty:
  assumes "\<forall>s\<in>set ss. risk_score s < m"
  shows "text_queue_loop l m 0 ss = []" "json_queue_loop l m 0 ss = []"
proof -
  from assms have "export_loop m ss = []"
    by (auto simp: export_loop_filter filter_empty_conv)
  then show "text_queue_loop l m 0 ss = []"
    using text_queue_take [of l m 0 ss] by simp
  then show "json_queue_loop l m 0 ss = []" by (simp add: json_queue_is_text_queue)
qed

lemma main_run_no_records:
  "fst (load_rows rnd (cohort_filter opts) rows) = [] \<Longrightarrow>
   main_run rnd opens opts rows = No_records_loaded"
  by (cases "load_rows rnd (cohort_filter opts) rows") (simp add: main_run_def)

lemma main_run_loaded:
  assumes "load_rows rnd (cohort_filter opts) rows = (loaded, skipped)" "loaded \<noteq> []"
  shows "main_run rnd opens opts rows =
     (if export_path opts \<noteq> None \<and> \<not> opens (the (export_path opts))
      then Failed_to_write_export
      else if summary_path opts \<noteq> None \<and> \<not> opens (the (summary_path opts))
      then Failed_to_write_summary
             (exported (build_report opts (qsort compare_risk_desc loaded) skipped))
      else Report (build_report opts (qsort compare_risk_desc loaded) skipped))"
  using assms by (simp add: main_run_def Let_def)

text \<open>
  C9, as the code has it. Take a run that loaded at least one record (one that passed the
  cohort filter, if there is one) and whose loaded records are all below the minimum
  risk, and a run that loaded no record. The second ends with "No records loaded."; the
  first never does: it ends with a report (exit status 0) whose action queue is empty,
  with the notice "No scholars met the minimum risk threshold." in text mode, unless a
  requested export or summary file does not open, when it ends with "Failed to write
  export" or "Failed to write summary". The two outcomes differ.
\<close>

theorem threshold_filter_is_not_no_records:
  assumes "fst (load_rows rnd (cohort_filter opts) rows) \<noteq> []"
    and "\<forall>s\<in>set (fst (load_rows rnd (cohort_filter opts) rows)). risk_score s < min_risk opts"
    and "fst (load_rows rnd' (cohort_filter opts') rows') = []"
  shows "main_run rnd' opens' opts' rows' = No_records_loaded
         \<and> main_run rnd opens opts rows \<noteq> main_run rnd' opens' opts' rows'
         \<and> (main_run rnd opens opts rows = Failed_to_write_export
            \<or> (\<exists>e. main_run rnd opens opts rows = Failed_to_write_summary e)
            \<or> (\<exists>r. main_run rnd opens opts rows = Report r \<and> action_queue r = []
                  \<and> threshold_notice r = (\<not> json opts)))
         \<and> ((export_path opts = None \<or> opens (the (export_path opts)))
              \<and> (summary_path opts = None \<or> opens (the (summary_path opts)))
            \<longrightarrow> (\<exists>r. main_run rnd opens opts rows = Report r \<and> action_queue r = []
                  \<and> threshold_notice r = (\<not> json opts)))"
proof -
  obtain loaded skipped where l: "load_rows rnd (cohort_filter opts) rows = (loaded, skipped)"
    by (cases "load_rows rnd (cohort_filter opts) rows")
  with assms(1,2) have ne: "loaded \<noteq> []"
    and below0: "\<forall>s\<in>set loaded. risk_score s < min_risk opts"
    by simp_all
  let ?scholars = "qsort compare_risk_desc loaded"
  have "set ?scholars = set loaded"
    using qsort_descending(2) [of compare_risk_desc risk_score, OF compare_risk_desc_le]
    by (metis mset_eq_setD)
  with below0 have below: "\<forall>s\<in>set ?scholars. risk_score s < min_risk opts" by simp
  have q: "action_queue (build_report opts ?scholars skipped) = []"
    using queue_empty [OF below] by (simp add: build_report_def Let_def)
  have n: "threshold_notice (build_report opts ?scholars skipped) = (\<not> json opts)"
    using queue_empty [OF below] by (simp add: build_report_def Let_def)
  have o': "main_run rnd' opens' opts' rows' = No_records_loaded"
    using assms(3) by (rule main_run_no_records)
  show ?thesis
    unfolding o' main_run_loaded [OF l ne] using q n by auto
qed

lemma three_loaded_pair:
  "load_rows exact None three_of_cohort_A =
     ([(perfect_but ''s1'' ''A'' 200)\<lparr>risk_score := 80\<rparr>,
       (perfect_but ''s2'' ''A'' 150)\<lparr>risk_score := 60\<rparr>,
       (perfect_but ''s3'' ''A'' 100)\<lparr>risk_score := 40\<rparr>], 0)"
  by (simp add: load_rows_def load_row_def three_of_cohort_A_def perfect_but_def
      compute_risk_fp_def exact_def clamp_def)

theorem threshold_filter_is_not_no_records_witness:
  "main_run exact every_file_opens (default_options\<lparr>min_risk := 90\<rparr>) []
     = No_records_loaded
   \<and> main_run exact every_file_opens (default_options\<lparr>min_risk := 90\<rparr>) three_of_cohort_A
     \<noteq> No_records_loaded"
proof -
  let ?opts = "default_options\<lparr>min_risk := 90\<rparr>"
  have c: "cohort_filter ?opts = None" by (simp add: default_options_def)
  have h1: "fst (load_rows exact (cohort_filter ?opts) three_of_cohort_A) \<noteq> []"
    by (simp add: c three_loaded_pair)
  have h2: "\<forall>s\<in>set (fst (load_rows exact (cohort_filter ?opts) three_of_cohort_A)).
      risk_score s < min_risk ?opts"
    by (simp add: c three_loaded_pair)
  have h3: "fst (load_rows exact (cohort_filter ?opts) []) = []"
    by (simp add: load_rows_def)
  from threshold_filter_is_not_no_records [OF h1 h2 h3, of every_file_opens every_file_opens]
  show ?thesis by metis
qed

text \<open>
  C9 as stated fails for the cohort filter: with \<open>-cohort B\<close> a file whose only record
  is of cohort A, and an empty file, both end with "No records loaded.".
\<close>

theorem cohort_filter_counterexample:
  "main_run exact every_file_opens (default_options\<lparr>cohort_filter := Some ''B''\<rparr>)
      [Fields (perfect_but ''s1'' ''A'' 200)] = No_records_loaded
   \<and> main_run exact every_file_opens (default_options\<lparr>cohort_filter := Some ''B''\<rparr>) []
      = No_records_loaded"
  by (simp add: main_run_def default_options_def load_rows_def load_row_def perfect_but_def)

end
